theory Spec2Isabelle
  imports Main "HOL-Library.AList" "HOL-Library.Sublist"
begin

section \<open>Python strings\<close>

text \<open>
  A Python \<open>str\<close> is a sequence of Unicode code points and \<open>len\<close> counts code points.
  The phone numbers and addresses of the service are such strings (the addresses in the
  repository's own examples are Cyrillic), so a character is modelled by its code point and
  a string by the list of its code points. \<open>asc\<close> embeds an ASCII literal.
\<close>

type_synonym pychar = nat
type_synonym pystr = "pychar list"

definition asc :: "string \<Rightarrow> pystr" where
  "asc s = map of_char s"

text \<open>
  \<open>str.isdigit\<close> is true of the characters whose Unicode property Numeric_Type is Digit or
  Decimal. These are the ASCII digits \<open>0\<close> to \<open>9\<close> (48 to 57) and, beyond them, the digits
  of other scripts and compatibility digits such as the superscripts U+00B2, U+00B3 and
  U+00B9. The table lists the code-point ranges of Unicode 14.0 (CPython 3.11).
\<close>

definition digit_ranges :: "(nat \<times> nat) list" where
  "digit_ranges =
    [(48, 57), (178, 179), (185, 185), (1632, 1641), (1776, 1785), (1984, 1993),
     (2406, 2415), (2534, 2543), (2662, 2671), (2790, 2799), (2918, 2927), (3046, 3055),
     (3174, 3183), (3302, 3311), (3430, 3439), (3558, 3567), (3664, 3673), (3792, 3801),
     (3872, 3881), (4160, 4169), (4240, 4249), (4969, 4977), (6112, 6121), (6160, 6169),
     (6470, 6479), (6608, 6618), (6784, 6793), (6800, 6809), (6992, 7001), (7088, 7097),
     (7232, 7241), (7248, 7257), (8304, 8304), (8308, 8313), (8320, 8329), (9312, 9320),
     (9332, 9340), (9352, 9360), (9450, 9450), (9461, 9469), (9471, 9471), (10102, 10110),
     (10112, 10120), (10122, 10130), (42528, 42537), (43216, 43225), (43264, 43273),
     (43472, 43481), (43504, 43513), (43600, 43609), (44016, 44025), (65296, 65305),
     (66720, 66729), (68160, 68163), (68912, 68921), (69216, 69224), (69714, 69722),
     (69734, 69743), (69872, 69881), (69942, 69951), (70096, 70105), (70384, 70393),
     (70736, 70745), (70864, 70873), (71248, 71257), (71360, 71369), (71472, 71481),
     (71904, 71913), (72016, 72025), (72784, 72793), (73040, 73049), (73120, 73129),
     (92768, 92777), (92864, 92873), (93008, 93017), (120782, 120831), (123200, 123209),
     (123632, 123641), (125264, 125273), (127232, 127242), (130032, 130041)]"

definition isdigit :: "pychar \<Rightarrow> bool" where
  "isdigit c = list_ex (\<lambda>r. fst r \<le> c \<and> c \<le> snd r) digit_ranges"

definition plus_sign :: pychar where
  "plus_sign = 43"

section \<open>Phone normalization\<close>

text \<open>
  The expression \<open>''.join(c for c in phone if c.isdigit() or c == '+')\<close>, written out in
  \<open>get_address\<close>, \<open>update_address\<close> and \<open>delete_record\<close> (main.py, variable
  \<open>cleaned_phone\<close>) and in \<open>validate_phone\<close> (objects.py, variable \<open>cleaned\<close>).
\<close>

definition keeps :: "pychar \<Rightarrow> bool" where
  "keeps c = (isdigit c \<or> c = plus_sign)"

definition cleaned_phone :: "pystr \<Rightarrow> pystr" where
  "cleaned_phone phone = filter keeps phone"

text \<open>
  The normalizer as the specification words it: only the decimal digits \<open>0\<close> to \<open>9\<close> and
  the \<open>+\<close> character are retained.
\<close>

definition decimal_digit :: "pychar \<Rightarrow> bool" where
  "decimal_digit c = (48 \<le> c \<and> c \<le> 57)"

definition spec_normalize :: "pystr \<Rightarrow> pystr" where
  "spec_normalize s = filter (\<lambda>c. decimal_digit c \<or> c = plus_sign) s"

section \<open>Exceptions and responses\<close>

text \<open>
  The exceptions that occur in the program: \<open>ValueError\<close> (raised by the phone validator),
  \<open>RuntimeError\<close> (raised by the store client when it has no connection object),
  \<open>RedisError\<close> (any exception raised by a command of the redis library) and FastAPI's
  \<open>HTTPException\<close> with its status code and detail. The detail is a text or, for the
  conflict of \<open>create_record\<close>, the dictionary with \<open>message\<close> and \<open>existing_address\<close>.
\<close>

datatype detail =
    Text pystr
  | Conflict (message: pystr) (existing_address: "pystr option")

datatype exn =
    ValueError pystr
  | RuntimeError pystr
  | RedisError
  | HTTPException nat detail

fun str_nat :: "nat \<Rightarrow> pystr" where
  "str_nat n = (if n < 10 then [48 + n] else str_nat (n div 10) @ [48 + n mod 10])"

declare str_nat.simps [simp del]

text \<open>
  \<open>str(e)\<close>: the message of an exception; Starlette prints an \<open>HTTPException\<close> as its
  status code, a colon and its detail. No \<open>try\<close> block of the program raises an exception
  with a dictionary as detail, whose printed form is its message here.
\<close>

fun str_exn :: "exn \<Rightarrow> pystr" where
  "str_exn (ValueError m) = m"
| "str_exn (RuntimeError m) = m"
| "str_exn RedisError = asc ''Error while talking to the server''"
| "str_exn (HTTPException c (Text d)) = str_nat c @ asc '': '' @ d"
| "str_exn (HTTPException c (Conflict m a)) = str_nat c @ asc '': '' @ m"

section \<open>Validation layer (objects.py)\<close>

text \<open>
  \<open>validate_phone\<close> runs before the length constraints of the field (\<open>mode='before'\<close>): it
  cleans the raw value and raises \<open>ValueError\<close> when fewer than 10 characters are left.
\<close>

definition phone_message :: pystr where
  "phone_message =
    [1053, 1086, 1084, 1077, 1088, 32, 1090, 1077, 1083, 1077, 1092, 1086, 1085, 1072, 32,
     1076, 1086, 1083, 1078, 1077, 1085, 32, 1089, 1086, 1076, 1077, 1088, 1078, 1072, 1090,
     1100, 32, 1084, 1080, 1085, 1080, 1084, 1091, 1084, 32, 49, 48, 32, 1094, 1080, 1092,
     1088]"

definition validate_phone :: "pystr \<Rightarrow> exn + pystr" where
  "validate_phone v =
     (let cleaned = cleaned_phone v
      in if length cleaned < 10 then Inl (ValueError phone_message) else Inr cleaned)"

text \<open>
  The errors pydantic reports for a field: the \<open>ValueError\<close> of a validator, or a string
  shorter than \<open>min_length\<close> or longer than \<open>max_length\<close>. \<open>Field\<close> is the constraint
  \<open>Field(..., min_length=lo, max_length=hi)\<close> on a \<open>str\<close>.
\<close>

datatype field_error =
    value_error pystr
  | string_too_short nat
  | string_too_long nat

definition Field :: "nat \<Rightarrow> nat \<Rightarrow> pystr \<Rightarrow> field_error + pystr" where
  "Field min_length max_length v =
     (if length v < min_length then Inl (string_too_short min_length)
      else if max_length < length v then Inl (string_too_long max_length)
      else Inr v)"

record PhoneAddressCreate =
  phone :: pystr
  address :: pystr

datatype AddressUpdate = AddressUpdate (new_address: pystr)

text \<open>
  The errors of a model are collected field by field, each under the name of its field;
  the model is built only when no field has an error.
\<close>

definition errors_of :: "string \<Rightarrow> field_error + 'a \<Rightarrow> (string \<times> field_error) list" where
  "errors_of name r = (case r of Inl e \<Rightarrow> [(name, e)] | Inr _ \<Rightarrow> [])"

definition parse_PhoneAddressCreate ::
  "pystr \<Rightarrow> pystr \<Rightarrow> (string \<times> field_error) list + PhoneAddressCreate" where
  "parse_PhoneAddressCreate raw_phone raw_address =
     (let p = (case validate_phone raw_phone of
                 Inl e \<Rightarrow> Inl (value_error (str_exn e))
               | Inr cleaned \<Rightarrow> Field 10 20 cleaned);
          a = Field 5 500 raw_address
      in case (p, a) of
           (Inr p', Inr a') \<Rightarrow> Inr \<lparr>phone = p', address = a'\<rparr>
         | _ \<Rightarrow> Inl (errors_of ''phone'' p @ errors_of ''address'' a))"

definition parse_AddressUpdate ::
  "pystr \<Rightarrow> (string \<times> field_error) list + AddressUpdate" where
  "parse_AddressUpdate raw_address =
     (case Field 5 500 raw_address of
        Inr a' \<Rightarrow> Inr (AddressUpdate a')
      | Inl e \<Rightarrow> Inl [(''address'', e)])"

section \<open>The expiring key-value store\<close>

text \<open>
  The store is the external Redis server. Its contents are an association list from keys
  to a value and the remaining time to live in seconds (\<open>None\<close>: the key does not expire),
  in the order in which the server enumerates its keys; a key occurs at most once. Time
  does not pass and no other client writes while one request is served.

  A command sent to the server may fail for reasons outside the program (the connection
  is lost, the server is down). It ends in one of three ways: it is \<open>Answered\<close> (the
  server executes it and its reply arrives), \<open>Dropped\<close> (it fails before the server
  executes it) or \<open>Lost\<close> (the server executes it and the reply does not arrive). The
  call of the library raises in the last two cases; after a \<open>Lost\<close> write the contents
  have changed all the same. \<open>faults\<close> is the schedule of these outcomes: its head is
  the outcome of the next command, and an exhausted schedule means that every further
  command is answered. \<open>trace\<close> records the commands sent, the oldest first. \<open>client\<close>
  says whether the manager holds a connection object (\<open>self.client\<close> is not \<open>None\<close>), as
  it does after \<open>initialize\<close>.
\<close>

datatype outcome = Answered | Dropped | Lost

type_synonym key = pystr

datatype command =
    GET key
  | SETEX key int pystr
  | SET key pystr
  | DEL key
  | EXISTS key
  | KEYS

record world =
  client :: bool
  db :: "(key \<times> pystr \<times> nat option) list"
  faults :: "outcome list"
  trace :: "command list"

definition send :: "command \<Rightarrow> world \<Rightarrow> outcome \<times> world" where
  "send c w =
     (case faults w of
        [] \<Rightarrow> (Answered, w\<lparr>trace := trace w @ [c]\<rparr>)
      | f # fs \<Rightarrow> (f, w\<lparr>faults := fs, trace := trace w @ [c]\<rparr>))"

text \<open>
  The commands of the redis library used by the client. Each returns the reply of the
  server or raises. \<open>SETEX\<close> is refused by the server when the expiry is not positive.
\<close>

definition redis_get :: "key \<Rightarrow> world \<Rightarrow> (exn + pystr option) \<times> world" where
  "redis_get k w =
     (let (outcome, w') = send (GET k) w
      in if outcome \<noteq> Answered then (Inl RedisError, w')
         else (Inr (map_option fst (map_of (db w') k)), w'))"

definition redis_setex :: "key \<Rightarrow> int \<Rightarrow> pystr \<Rightarrow> world \<Rightarrow> (exn + bool) \<times> world" where
  "redis_setex k t v w =
     (let (outcome, w') = send (SETEX k t v) w;
          written = w'\<lparr>db := AList.update k (v, Some (nat t)) (db w')\<rparr>
      in if outcome = Dropped \<or> t \<le> 0 then (Inl RedisError, w')
         else if outcome = Lost then (Inl RedisError, written)
         else (Inr True, written))"

definition redis_set :: "key \<Rightarrow> pystr \<Rightarrow> world \<Rightarrow> (exn + bool) \<times> world" where
  "redis_set k v w =
     (let (outcome, w') = send (SET k v) w;
          written = w'\<lparr>db := AList.update k (v, None) (db w')\<rparr>
      in if outcome = Dropped then (Inl RedisError, w')
         else if outcome = Lost then (Inl RedisError, written)
         else (Inr True, written))"

definition redis_delete :: "key \<Rightarrow> world \<Rightarrow> (exn + int) \<times> world" where
  "redis_delete k w =
     (let (outcome, w') = send (DEL k) w;
          deleted = w'\<lparr>db := AList.delete k (db w')\<rparr>
      in if outcome = Dropped then (Inl RedisError, w')
         else if outcome = Lost then (Inl RedisError, deleted)
         else (Inr (if map_of (db w') k = None then 0 else 1), deleted))"

definition redis_exists :: "key \<Rightarrow> world \<Rightarrow> (exn + int) \<times> world" where
  "redis_exists k w =
     (let (outcome, w') = send (EXISTS k) w
      in if outcome \<noteq> Answered then (Inl RedisError, w')
         else (Inr (if map_of (db w') k = None then 0 else 1), w'))"

definition redis_keys :: "world \<Rightarrow> (exn + key list) \<times> world" where
  "redis_keys w =
     (let (outcome, w') = send KEYS w
      in if outcome \<noteq> Answered then (Inl RedisError, w')
         else (Inr (map fst (db w')), w'))"

section \<open>Record store client (redis\_client.py)\<close>

text \<open>
  Every method of \<open>AsyncRedisManager\<close> is a \<open>try\<close> block whose \<open>except Exception\<close> clause
  logs and returns a fixed value. \<open>guarded\<close> is the first statement of each block: it
  raises \<open>RuntimeError\<close> when there is no connection object. \<open>except_return\<close> is the
  \<open>except\<close> clause: the method returns the value of the block, or the fixed value when
  the block has raised; its result is a value of the method's return type, never an
  exception.
\<close>

definition guarded :: "(world \<Rightarrow> (exn + 'a) \<times> world) \<Rightarrow> world \<Rightarrow> (exn + 'a) \<times> world" where
  "guarded body w =
     (if \<not> client w then (Inl (RuntimeError (asc ''Redis client not initialized'')), w)
      else body w)"

definition except_return :: "'a \<Rightarrow> (exn + 'a) \<times> world \<Rightarrow> 'a \<times> world" where
  "except_return sentinel r =
     (case r of (Inl e, w') \<Rightarrow> (sentinel, w') | (Inr v, w') \<Rightarrow> (v, w'))"

text \<open>
  \<open>set_data\<close>: the expiry is optional; \<open>if expire:\<close> is false for \<open>None\<close> and for \<open>0\<close>.
\<close>

definition set_data_try :: "key \<Rightarrow> pystr \<Rightarrow> int option \<Rightarrow> world \<Rightarrow> (exn + bool) \<times> world" where
  "set_data_try k v expire =
     guarded (\<lambda>w. case expire of
                     Some t \<Rightarrow> if t \<noteq> 0 then redis_setex k t v w else redis_set k v w
                   | None \<Rightarrow> redis_set k v w)"

definition set_data :: "key \<Rightarrow> pystr \<Rightarrow> int option \<Rightarrow> world \<Rightarrow> bool \<times> world" where
  "set_data k v expire w = except_return False (set_data_try k v expire w)"

definition get_data_try :: "key \<Rightarrow> world \<Rightarrow> (exn + pystr option) \<times> world" where
  "get_data_try k = guarded (redis_get k)"

definition get_data :: "key \<Rightarrow> world \<Rightarrow> pystr option \<times> world" where
  "get_data k w = except_return None (get_data_try k w)"

definition delete_key_try :: "key \<Rightarrow> world \<Rightarrow> (exn + bool) \<times> world" where
  "delete_key_try k =
     guarded (\<lambda>w. case redis_delete k w of
                     (Inl e, w') \<Rightarrow> (Inl e, w')
                   | (Inr result, w') \<Rightarrow> (Inr (result > 0), w'))"

definition delete_key :: "key \<Rightarrow> world \<Rightarrow> bool \<times> world" where
  "delete_key k w = except_return False (delete_key_try k w)"

definition exists_try :: "key \<Rightarrow> world \<Rightarrow> (exn + bool) \<times> world" where
  "exists_try k =
     guarded (\<lambda>w. case redis_exists k w of
                     (Inl e, w') \<Rightarrow> (Inl e, w')
                   | (Inr result, w') \<Rightarrow> (Inr (result > 0), w'))"

definition exists :: "key \<Rightarrow> world \<Rightarrow> bool \<times> world" where
  "exists k w = except_return False (exists_try k w)"

text \<open>
  \<open>keys\<close> is called with the pattern \<open>*\<close> only, which every key matches.
\<close>

definition keys_try :: "world \<Rightarrow> (exn + key list) \<times> world" where
  "keys_try = guarded redis_keys"

definition keys :: "world \<Rightarrow> key list \<times> world" where
  "keys w = except_return [] (keys_try w)"

section \<open>Resource handlers (main.py)\<close>

text \<open>
  What a handler returns: the dictionary of each handler, by its fields. A handler either
  returns such a body or raises.
\<close>

datatype body =
    Healthy
  | AddressFound pystr pystr
  | RecordCreated pystr pystr nat
  | AddressUpdated pystr pystr
  | NoBody
  | Records (total_records: nat) (displayed_records: nat) (records: "(key \<times> pystr) list")
  | Stats nat nat

type_synonym 'a handler = "world \<Rightarrow> (exn + 'a) \<times> world"

text \<open>
  \<open>try: ... except Exception as e: raise HTTPException(status, detail(e))\<close>
\<close>

definition except_raise ::
  "nat \<Rightarrow> (exn \<Rightarrow> detail) \<Rightarrow> (exn + 'a) \<times> world \<Rightarrow> (exn + 'a) \<times> world" where
  "except_raise code det r =
     (case r of
        (Inl e, w') \<Rightarrow> (Inl (HTTPException code (det e)), w')
      | (Inr v, w') \<Rightarrow> (Inr v, w'))"

text \<open>
  \<open>health_check\<close>: the first statement of the \<open>try\<close> block raises, so the \<open>return\<close> that
  follows it is never reached, and the \<open>except\<close> clause turns the exception into another
  503. No method of the store client is called.
\<close>

definition health_check :: "body handler" where
  "health_check w =
     except_raise 503 (\<lambda>e. Text (asc ''Service unhealthy: '' @ str_exn e))
       (Inl (HTTPException 503 (Text (asc ''Redis connection failed''))), w)"

definition get_address :: "pystr \<Rightarrow> body handler" where
  "get_address path_phone w =
     (let cleaned = cleaned_phone path_phone;
          (stored, w1) = get_data cleaned w
      in case stored of
           None \<Rightarrow>
             (Inl (HTTPException 404 (Text (asc ''Address not found for phone: '' @ cleaned))), w1)
         | Some a \<Rightarrow> (Inr (AddressFound cleaned a), w1))"

definition ttl_seconds :: int where
  "ttl_seconds = 30 * 24 * 60 * 60"

definition create_record :: "PhoneAddressCreate \<Rightarrow> body handler" where
  "create_record data w =
     (let (found, w1) = exists (phone data) w
      in if found then
           (let (existing, w2) = get_data (phone data) w1
            in (Inl (HTTPException 409
                       (Conflict (asc ''Phone '' @ phone data @ asc '' already exists'')
                          existing)), w2))
         else
           (let (success, w2) = set_data (phone data) (address data) (Some ttl_seconds) w1
            in if \<not> success then
                 (Inl (HTTPException 500 (Text (asc ''Failed to create record in Redis''))), w2)
               else (Inr (RecordCreated (phone data) (address data) 30), w2)))"

definition update_address :: "pystr \<Rightarrow> AddressUpdate \<Rightarrow> body handler" where
  "update_address path_phone data w =
     (let cleaned = cleaned_phone path_phone;
          (found, w1) = exists cleaned w
      in if \<not> found then
           (Inl (HTTPException 404 (Text (asc ''Phone '' @ cleaned @ asc '' not found''))), w1)
         else
           (let (success, w2) = set_data cleaned (new_address data) (Some ttl_seconds) w1
            in if \<not> success then
                 (Inl (HTTPException 500 (Text (asc ''Failed to update record in Redis''))), w2)
               else (Inr (AddressUpdated cleaned (new_address data)), w2)))"

definition delete_record :: "pystr \<Rightarrow> body handler" where
  "delete_record path_phone w =
     (let cleaned = cleaned_phone path_phone;
          (found, w1) = exists cleaned w
      in if \<not> found then
           (Inl (HTTPException 404 (Text (asc ''Phone '' @ cleaned @ asc '' not found''))), w1)
         else
           (let (success, w2) = delete_key cleaned w1
            in if \<not> success then
                 (Inl (HTTPException 500 (Text (asc ''Failed to delete record from Redis''))), w2)
               else (Inr NoBody, w2)))"

text \<open>
  The loop of \<open>get_all_records\<close>: \<open>if value:\<close> is false for \<open>None\<close> and for the empty
  string; \<open>records[key] = value\<close> updates the dictionary, which keeps insertion order.
\<close>

fun fetch :: "key list \<Rightarrow> (key \<times> pystr) list \<Rightarrow> world \<Rightarrow> (key \<times> pystr) list \<times> world" where
  "fetch [] recs w = (recs, w)"
| "fetch (k # ks) recs w =
     (case get_data k w of
        (None, w') \<Rightarrow> fetch ks recs w'
      | (Some v, w') \<Rightarrow> fetch ks (if v \<noteq> [] then AList.update k v recs else recs) w')"

definition get_all_records :: "int \<Rightarrow> body handler" where
  "get_all_records limit w =
     except_raise 500 (\<lambda>e. Text (asc ''Failed to retrieve records: '' @ str_exn e))
       (let (all_keys, w1) = keys w;
            keys_to_fetch = (if limit > 0 then take (nat limit) all_keys else all_keys);
            (recs, w2) = fetch keys_to_fetch [] w1
        in (Inr (Records (length all_keys) (length recs) recs), w2))"

definition get_stats :: "body handler" where
  "get_stats w =
     except_raise 500 (\<lambda>e. Text (asc ''Failed to retrieve stats: '' @ str_exn e))
       (let (all_keys, w1) = keys w
        in (Inr (Stats (length all_keys) (min 5 (length all_keys))), w1))"

section \<open>HTTP surface\<close>

text \<open>
  FastAPI turns the outcome of a handler into a response: the returned body under the
  status code of the route, an \<open>HTTPException\<close> under its own status code with its detail,
  any other exception as 500. A request body that fails validation is answered with 422
  and the list of errors, and the handler is not called.
\<close>

datatype content =
    Json body
  | Detail detail
  | ValidationErrors "(string \<times> field_error) list"
  | InternalServerError
  | Empty

datatype response = Response (status_code: nat) (content: content)

definition respond :: "nat \<Rightarrow> (exn + body) \<times> world \<Rightarrow> response \<times> world" where
  "respond code r =
     (case r of
        (Inr b, w') \<Rightarrow> (Response code (if code = 204 then Empty else Json b), w')
      | (Inl (HTTPException c d), w') \<Rightarrow> (Response c (Detail d), w')
      | (Inl _, w') \<Rightarrow> (Response 500 InternalServerError, w'))"

definition GET_health :: "world \<Rightarrow> response \<times> world" where
  "GET_health w = respond 200 (health_check w)"

definition GET_phones :: "pystr \<Rightarrow> world \<Rightarrow> response \<times> world" where
  "GET_phones path_phone w = respond 200 (get_address path_phone w)"

definition POST_phones :: "pystr \<Rightarrow> pystr \<Rightarrow> world \<Rightarrow> response \<times> world" where
  "POST_phones raw_phone raw_address w =
     (case parse_PhoneAddressCreate raw_phone raw_address of
        Inl errs \<Rightarrow> (Response 422 (ValidationErrors errs), w)
      | Inr data \<Rightarrow> respond 201 (create_record data w))"

definition PUT_phones :: "pystr \<Rightarrow> pystr \<Rightarrow> world \<Rightarrow> response \<times> world" where
  "PUT_phones path_phone raw_address w =
     (case parse_AddressUpdate raw_address of
        Inl errs \<Rightarrow> (Response 422 (ValidationErrors errs), w)
      | Inr data \<Rightarrow> respond 200 (update_address path_phone data w))"

definition DELETE_phones :: "pystr \<Rightarrow> world \<Rightarrow> response \<times> world" where
  "DELETE_phones path_phone w = respond 204 (delete_record path_phone w)"

definition GET_admin_records :: "int \<Rightarrow> world \<Rightarrow> response \<times> world" where
  "GET_admin_records limit w = respond 200 (get_all_records limit w)"

definition GET_admin_stats :: "world \<Rightarrow> response \<times> world" where
  "GET_admin_stats w = respond 200 (get_stats w)"

section \<open>Notions used in the statements\<close>

text \<open>
  \<open>outcome_at i w\<close>: how the \<open>i\<close>-th command sent from \<open>w\<close> on ends. \<open>fails_at i w\<close>: it
  fails. \<open>lost_at i w\<close>: it fails after the server has executed it. \<open>faulty w\<close>: the next
  call of a client method meets a fault, because there is no connection object or because
  the command fails. \<open>no_fault w\<close>: no call does, whatever their number.
\<close>

definition outcome_at :: "nat \<Rightarrow> world \<Rightarrow> outcome" where
  "outcome_at i w = (if i < length (faults w) then faults w ! i else Answered)"

definition fails_at :: "nat \<Rightarrow> world \<Rightarrow> bool" where
  "fails_at i w = (outcome_at i w \<noteq> Answered)"

definition lost_at :: "nat \<Rightarrow> world \<Rightarrow> bool" where
  "lost_at i w = (outcome_at i w = Lost)"

definition faulty :: "world \<Rightarrow> bool" where
  "faulty w = (\<not> client w \<or> fails_at 0 w)"

definition no_fault :: "world \<Rightarrow> bool" where
  "no_fault w = (client w \<and> list_all (\<lambda>f. f = Answered) (faults w))"

text \<open>
  The value stored under a key, and the keys that the listing shows: those with a
  non-empty value.
\<close>

definition stored_value :: "world \<Rightarrow> key \<Rightarrow> pystr option" where
  "stored_value w k = map_option fst (map_of (db w) k)"

definition shown :: "world \<Rightarrow> key \<Rightarrow> bool" where
  "shown w k = (\<exists>v. stored_value w k = Some v \<and> v \<noteq> [])"

text \<open>
  Example stores: one record for the phone \<open>+79161234567\<close> under a given schedule of
  faults, and ten records \<open>+79161234560\<close> to \<open>+79161234569\<close> without faults.
\<close>

definition one_record :: "outcome list \<Rightarrow> world" where
  "one_record fs =
     \<lparr>client = True, db = [(asc ''+79161234567'', asc ''Moscow'', Some 600)],
      faults = fs, trace = []\<rparr>"

definition kazan :: PhoneAddressCreate where
  "kazan = \<lparr>phone = asc ''+79161234567'', address = asc ''Kazan''\<rparr>"

definition numbered :: "nat \<Rightarrow> pystr" where
  "numbered i = asc ''+7916123456'' @ [48 + i]"

definition ten_records :: world where
  "ten_records =
     \<lparr>client = True,
      db = map (\<lambda>i. (numbered i, asc ''Moscow'', Some 600)) [0, 1, 2, 3, 4, 5, 6, 7, 8, 9],
      faults = [], trace = []\<rparr>"

section \<open>Evaluation lemmas\<close>

text \<open>
  What each method of the store client returns and how it changes the world, and what the
  loop of the listing computes.
\<close>

lemma asc_eval [simp]: "asc [] = []" "asc (c # cs) = of_char c # asc cs"
  by (simp_all add: asc_def)

lemma keeps_ascii: "c < 128 \<Longrightarrow> keeps c = (48 \<le> c \<and> c \<le> 57 \<or> c = 43)"
  by (auto simp: keeps_def isdigit_def digit_ranges_def plus_sign_def)

lemma cleaned_phone_eval:
  "cleaned_phone [] = []"
  "cleaned_phone (c # cs) = (if keeps c then c # cleaned_phone cs else cleaned_phone cs)"
  by (simp_all add: cleaned_phone_def)

lemma decimal_digit_isdigit: "decimal_digit c \<Longrightarrow> isdigit c"
  by (simp add: decimal_digit_def isdigit_def digit_ranges_def)

lemma cleaned_phone_idem: "cleaned_phone (cleaned_phone s) = cleaned_phone s"
  by (simp add: cleaned_phone_def)

lemma subseq_cleaned: "subseq (cleaned_phone s) s"
  by (simp add: cleaned_phone_def)

lemma cleaned_largest:
  assumes "subseq ys s" "\<forall>c\<in>set ys. keeps c"
  shows "subseq ys (cleaned_phone s)"
proof -
  have "subseq (filter keeps ys) (filter keeps s)" using assms(1) by (rule subseq_filter)
  moreover have "filter keeps ys = ys" using assms(2) by (simp add: filter_id_conv)
  ultimately show ?thesis by (simp add: cleaned_phone_def)
qed

lemma ascii_agree: "\<forall>c\<in>set s. c < 128 \<Longrightarrow> cleaned_phone s = spec_normalize s"
  unfolding cleaned_phone_def spec_normalize_def
  by (rule filter_cong) (auto simp: keeps_def isdigit_def digit_ranges_def decimal_digit_def)

lemma ttl_pos: "0 < ttl_seconds"
  by (simp add: ttl_seconds_def)

lemma nat_ttl: "nat ttl_seconds = 2592000"
  by (simp add: ttl_seconds_def)

lemma outcome_at_0: "outcome_at 0 w = (case faults w of [] \<Rightarrow> Answered | f # fs \<Rightarrow> f)"
  by (simp add: outcome_at_def split: list.splits)

lemma send_eval:
  "send c w = (outcome_at 0 w, w\<lparr>faults := tl (faults w), trace := trace w @ [c]\<rparr>)"
  by (simp add: send_def outcome_at_0 split: list.splits)

lemma outcome_at_tl:
  "outcome_at i (w\<lparr>faults := tl (faults w), trace := t\<rparr>) = outcome_at (Suc i) w"
  by (cases "faults w") (simp_all add: outcome_at_def)

lemma fails_at_tl [simp]:
  "fails_at i (w\<lparr>faults := tl (faults w), trace := t\<rparr>) = fails_at (Suc i) w"
  "lost_at i (w\<lparr>faults := tl (faults w), trace := t\<rparr>) = lost_at (Suc i) w"
  by (simp_all add: fails_at_def lost_at_def outcome_at_tl)

lemma lost_fails: "lost_at i w \<Longrightarrow> fails_at i w"
  by (simp add: lost_at_def fails_at_def)

lemma exists_eval:
  "exists k w =
     (if \<not> client w then (False, w)
      else (\<not> fails_at 0 w \<and> map_of (db w) k \<noteq> None,
            w\<lparr>faults := tl (faults w), trace := trace w @ [EXISTS k]\<rparr>))"
  by (simp add: exists_def exists_try_def guarded_def except_return_def redis_exists_def
        send_eval fails_at_def)

lemma get_data_eval:
  "get_data k w =
     (if \<not> client w then (None, w)
      else (if fails_at 0 w then None else map_option fst (map_of (db w) k),
            w\<lparr>faults := tl (faults w), trace := trace w @ [GET k]\<rparr>))"
  by (simp add: get_data_def get_data_try_def guarded_def except_return_def redis_get_def
        send_eval fails_at_def)

lemma set_data_eval:
  "0 < t \<Longrightarrow> set_data k v (Some t) w =
     (if \<not> client w then (False, w)
      else (\<not> fails_at 0 w,
            w\<lparr>faults := tl (faults w), trace := trace w @ [SETEX k t v],
               db := if fails_at 0 w \<and> \<not> lost_at 0 w then db w
                     else AList.update k (v, Some (nat t)) (db w)\<rparr>))"
  by (cases "outcome_at 0 w")
     (simp_all add: set_data_def set_data_try_def guarded_def except_return_def redis_setex_def
        send_eval fails_at_def lost_at_def)

lemma delete_key_eval:
  "delete_key k w =
     (if \<not> client w then (False, w)
      else (\<not> fails_at 0 w \<and> map_of (db w) k \<noteq> None,
            w\<lparr>faults := tl (faults w), trace := trace w @ [DEL k],
               db := if fails_at 0 w \<and> \<not> lost_at 0 w then db w
                     else AList.delete k (db w)\<rparr>))"
  by (cases "outcome_at 0 w")
     (simp_all add: delete_key_def delete_key_try_def guarded_def except_return_def
        redis_delete_def send_eval fails_at_def lost_at_def)

lemma keys_eval:
  "keys w =
     (if \<not> client w then ([], w)
      else (if fails_at 0 w then [] else map fst (db w),
            w\<lparr>faults := tl (faults w), trace := trace w @ [KEYS]\<rparr>))"
  by (simp add: keys_def keys_try_def guarded_def except_return_def redis_keys_def
        send_eval fails_at_def)

lemma fetch_Cons:
  "fetch (k # ks) recs w =
     (if client w then
        fetch ks (if \<not> fails_at 0 w \<and> shown w k
                  then AList.update k (the (stored_value w k)) recs else recs)
          (w\<lparr>faults := tl (faults w), trace := trace w @ [GET k]\<rparr>)
      else fetch ks recs w)"
  by (cases "map_of (db w) k")
     (auto simp: get_data_eval shown_def stored_value_def)

lemma shown_step [simp]:
  "shown (w\<lparr>faults := fs, trace := t\<rparr>) = shown w"
  "stored_value (w\<lparr>faults := fs, trace := t\<rparr>) = stored_value w"
  by (simp_all add: shown_def stored_value_def fun_eq_iff)

lemma fetch_db: "db (snd (fetch ks recs w)) = db w"
  by (induction ks arbitrary: recs w) (simp_all add: fetch_Cons del: fetch.simps(2))

lemma fetch_trace: "trace (snd (fetch ks recs w)) = trace w @ (if client w then map GET ks else [])"
  by (induction ks arbitrary: recs w) (simp_all add: fetch_Cons del: fetch.simps(2))

lemma fetch_keys:
  "fst ` set (fst (fetch ks recs w)) \<subseteq> fst ` set recs \<union> {k \<in> set ks. shown w k}"
proof (induction ks arbitrary: recs w)
  case Nil
  then show ?case by simp
next
  case (Cons k ks)
  let ?w' = "w\<lparr>faults := tl (faults w), trace := trace w @ [GET k]\<rparr>"
  let ?v = "the (stored_value w k)"
  have dom: "fst ` set (AList.update k ?v recs) = insert k (fst ` set recs)"
    using dom_update[of k ?v recs] by simp
  show ?case
    using Cons.IH[of recs w] Cons.IH[of recs ?w'] Cons.IH[of "AList.update k ?v recs" ?w'] dom
    by (auto simp: fetch_Cons simp del: fetch.simps(2))
qed

lemma no_fault_fails: "no_fault w \<Longrightarrow> \<not> fails_at i w"
  by (auto simp: no_fault_def fails_at_def outcome_at_def list_all_iff dest: nth_mem)

lemma no_fault_step: "no_fault w \<Longrightarrow> no_fault (w\<lparr>faults := tl (faults w), trace := t\<rparr>)"
  by (cases "faults w") (auto simp: no_fault_def)

lemma update_fresh: "k \<notin> fst ` set al \<Longrightarrow> AList.update k v al = al @ [(k, v)]"
  by (induction al) auto

lemma fetch_no_fault:
  assumes "no_fault w" and "distinct ks" and "set ks \<inter> fst ` set recs = {}"
  shows "fst (fetch ks recs w) =
           recs @ map (\<lambda>k. (k, the (stored_value w k))) (filter (shown w) ks)"
  using assms
proof (induction ks arbitrary: recs w)
  case Nil
  then show ?case by simp
next
  case (Cons k ks)
  let ?w' = "w\<lparr>faults := tl (faults w), trace := trace w @ [GET k]\<rparr>"
  let ?v = "the (stored_value w k)"
  have nf: "no_fault ?w'" using Cons.prems(1) by (rule no_fault_step)
  have cl: "client w" "\<not> fails_at 0 w"
    using Cons.prems(1) no_fault_fails[of w 0] by (auto simp: no_fault_def)
  have fresh: "k \<notin> fst ` set recs" using Cons.prems(3) by auto
  show ?case
  proof (cases "shown w k")
    case True
    have step: "fetch (k # ks) recs w = fetch ks (recs @ [(k, ?v)]) ?w'"
      using cl True fresh by (simp add: fetch_Cons update_fresh del: fetch.simps(2))
    have "set ks \<inter> fst ` set (recs @ [(k, ?v)]) = {}" using Cons.prems(2,3) by auto
    then show ?thesis
      using Cons.IH[OF nf, of "recs @ [(k, ?v)]"] Cons.prems(2) step True by simp
  next
    case False
    have step: "fetch (k # ks) recs w = fetch ks recs ?w'"
      using cl False by (simp add: fetch_Cons del: fetch.simps(2))
    have "set ks \<inter> fst ` set recs = {}" using Cons.prems(3) by auto
    then show ?thesis
      using Cons.IH[OF nf, of recs] Cons.prems(2) step False by simp
  qed
qed

lemma get_all_records_eval:
  "get_all_records limit w =
     (let ks = (if 0 < limit then take (nat limit) (fst (keys w)) else fst (keys w));
          r = fetch ks [] (snd (keys w))
      in (Inr (Records (length (fst (keys w))) (length (fst r)) (fst r)), snd r))"
  by (simp add: get_all_records_def except_raise_def Let_def split: prod.splits)

lemma keys_faulty: "fst (keys w) = (if faulty w then [] else map fst (db w))"
  by (simp add: keys_eval faulty_def)

lemma keys_db: "db (snd (keys w)) = db w" "client (snd (keys w)) = client w"
  by (simp_all add: keys_eval)

lemma shown_keys [simp]: "shown (snd (keys w)) = shown w" "stored_value (snd (keys w)) = stored_value w"
  by (simp_all add: shown_def stored_value_def fun_eq_iff keys_db)

lemma no_fault_keys: "no_fault w \<Longrightarrow> no_fault (snd (keys w))"
  by (simp add: keys_eval no_fault_step)

lemma Field_Inr: "Field lo hi v = Inr u \<longleftrightarrow> (lo \<le> length v \<and> length v \<le> hi \<and> u = v)"
  by (auto simp: Field_def)

lemma parse_update_iff:
  "(\<exists>errs. parse_AddressUpdate a = Inl errs) \<longleftrightarrow> (length a < 5 \<or> 500 < length a)"
  by (auto simp: parse_AddressUpdate_def Field_def)

lemma parse_create_iff:
  "(\<exists>errs. parse_PhoneAddressCreate p a = Inl errs) \<longleftrightarrow>
     (length (cleaned_phone p) < 10 \<or> 20 < length (cleaned_phone p) \<or> length a < 5 \<or> 500 < length a)"
  by (auto simp: parse_PhoneAddressCreate_def validate_phone_def Field_def Let_def
           split: sum.splits)

lemma create_status:
  "status_code (fst (respond 201 (create_record data w))) \<noteq> 422"
  by (simp add: create_record_def exists_eval get_data_eval set_data_eval[OF ttl_pos] respond_def)

lemma update_status:
  "status_code (fst (respond 200 (update_address p data w))) \<noteq> 422"
  by (simp add: update_address_def exists_eval set_data_eval[OF ttl_pos] respond_def Let_def)

lemmas run =
  exists_eval get_data_eval set_data_eval[OF ttl_pos] delete_key_eval keys_eval respond_def
  fails_at_def lost_at_def outcome_at_def nat_ttl

section \<open>The claims\<close>

subsection \<open>C1: health check\<close>

text \<open>
  C1 (the health check probes the store and reports 200 when it is reachable, 503 when it
  is not). The handler does not do so: whatever the state of the store, reachable or not,
  \<open>GET /health\<close> answers 503 and sends no command to the store; the world, with its
  trace of commands, is returned as it was.
\<close>

theorem health_check_unconditional:
  "GET_health w = (Response 503 (Detail (Text (asc ''Service unhealthy: 503: Redis connection failed''))), w)"
  by (simp add: GET_health_def health_check_def except_raise_def respond_def str_nat.simps)

subsection \<open>C2: what normalization retains\<close>

text \<open>
  C2, as stated (exactly the decimal digits and \<open>+\<close> are retained), fails: the
  superscript two, U+00B2, is no decimal digit, and \<open>str.isdigit\<close> accepts it, so the
  normalizer keeps it.
\<close>

theorem cleaned_phone_counterexample: "cleaned_phone [178] \<noteq> spec_normalize [178]"
  by (simp add: cleaned_phone_def keeps_def isdigit_def digit_ranges_def spec_normalize_def
        decimal_digit_def plus_sign_def)

text \<open>
  C2, amended: for every string \<open>s\<close> the normalizer returns the subsequence of \<open>s\<close> of
  the characters that \<open>str.isdigit\<close> accepts, the decimal digits \<open>0\<close> to \<open>9\<close> among
  them, and of the character \<open>+\<close>, in their original order: the result is a subsequence
  of \<open>s\<close>, holds such characters only, and every subsequence of \<open>s\<close> of such characters
  is a subsequence of it. The phone validator of the create payload returns the same
  string. The function is total and has no effect.
\<close>

theorem cleaned_phone_exact:
  "subseq (cleaned_phone s) s
   \<and> (\<forall>c\<in>set (cleaned_phone s). isdigit c \<or> c = plus_sign)
   \<and> (\<forall>ys. subseq ys s \<and> (\<forall>c\<in>set ys. isdigit c \<or> c = plus_sign) \<longrightarrow> subseq ys (cleaned_phone s))
   \<and> (\<forall>c. decimal_digit c \<longrightarrow> isdigit c)
   \<and> (\<forall>p. validate_phone s = Inr p \<longrightarrow> p = cleaned_phone s)"
  using subseq_cleaned[of s] cleaned_largest[of _ s] decimal_digit_isdigit
  by (auto simp: keeps_def cleaned_phone_def validate_phone_def Let_def split: if_splits)

text \<open>
  At the string \<open>8 (9\<close>: the subsequence \<open>89\<close> of digits is a subsequence of the result.
\<close>

theorem cleaned_phone_exact_witness:
  "subseq (asc ''89'') (cleaned_phone (asc ''8 (9''))"
  using cleaned_phone_exact[of "asc ''8 (9''"]
  by (simp add: keeps_ascii decimal_digit_def)

subsection \<open>C3: conflict on create\<close>

text \<open>
  C3, as stated (a create request for a phone that exists in the store is answered 409
  with the stored address), fails when a command fails. With the record of
  \<open>+79161234567\<close> in the store: when the \<open>GET\<close> that follows the existence check fails,
  the 409 carries no address; when the existence check itself fails, the answer is not
  409.
\<close>

theorem create_conflict_counterexample:
  "map_of (db (one_record [Answered, Dropped])) (phone kazan) = Some (asc ''Moscow'', Some 600)
   \<and> content (fst (respond 201 (create_record kazan (one_record [Answered, Dropped])))) =
       Detail (Conflict (asc ''Phone +79161234567 already exists'') None)
   \<and> status_code (fst (respond 201 (create_record kazan (one_record [Dropped])))) = 201"
  by (simp add: create_record_def kazan_def one_record_def run)

text \<open>
  C3, amended: for every create request whose phone exists in the store and is found by
  the existence check (there is a connection object and the \<open>EXISTS\<close> command does not
  fail), the handler raises 409; the detail carries what \<open>get\<close> returns, the stored address
  when the \<open>GET\<close> command succeeds and none when it fails; the contents of the store are
  unchanged, and the two commands \<open>EXISTS\<close> and \<open>GET\<close> are all that is sent: no write.
\<close>

theorem create_conflict:
  assumes "map_of (db w) (phone data) = Some (a, t)" and "client w" and "\<not> fails_at 0 w"
  shows "respond 201 (create_record data w) =
           (Response 409
              (Detail (Conflict (asc ''Phone '' @ phone data @ asc '' already exists'')
                         (if fails_at 1 w then None else Some a))),
            w\<lparr>faults := tl (tl (faults w)),
               trace := trace w @ [EXISTS (phone data), GET (phone data)]\<rparr>)"
  using assms by (simp add: create_record_def exists_eval get_data_eval respond_def)

text \<open>
  At the store with one record: without fault, and with a \<open>GET\<close> that fails.
\<close>

theorem create_conflict_witness:
  "respond 201 (create_record kazan (one_record [])) =
     (Response 409 (Detail (Conflict (asc ''Phone +79161234567 already exists'')
                              (Some (asc ''Moscow'')))),
      (one_record []) \<lparr>trace := [EXISTS (asc ''+79161234567''), GET (asc ''+79161234567'')]\<rparr>)
   \<and> fst (respond 201 (create_record kazan (one_record [Answered, Lost]))) =
       Response 409 (Detail (Conflict (asc ''Phone +79161234567 already exists'') None))"
  using create_conflict[of "one_record []" kazan "asc ''Moscow''" "Some 600"]
    create_conflict[of "one_record [Answered, Lost]" kazan "asc ''Moscow''" "Some 600"]
  by (simp add: kazan_def one_record_def fails_at_def outcome_at_def)

subsection \<open>C4: update\<close>

text \<open>
  C4, as stated (if the phone is present the value is replaced and the answer is 200),
  fails when the write fails: the phone is present, the existence check finds it, the
  \<open>SETEX\<close> command fails, and the handler raises 500.
\<close>

theorem update_counterexample:
  "map_of (db (one_record [Answered, Dropped])) (cleaned_phone (asc ''+7 (916) 123-45-67'')) =
      Some (asc ''Moscow'', Some 600)
   \<and> status_code (fst (respond 200 (update_address (asc ''+7 (916) 123-45-67'')
        (AddressUpdate (asc ''Kazan'')) (one_record [Answered, Dropped])))) = 500"
  by (simp add: update_address_def one_record_def run cleaned_phone_eval keeps_ascii Let_def)

text \<open>
  C4, amended: for every update request, if the normalized path phone is absent from the
  store, the handler raises 404 and the store is unchanged (update never creates a
  record); if the phone is present and neither the existence check nor the write fails,
  the stored value is replaced by the new address with a time to live of 2,592,000
  seconds, and the handler returns the updated address under 200; if the phone is present
  and found and the write fails, the handler raises 500. In the last case the store holds
  what the server made of the attempted write: the new address if the server executed the
  command before the failure, its former contents otherwise.
\<close>

theorem update_semantics:
  "(map_of (db w) (cleaned_phone path_phone) = None \<longrightarrow>
      status_code (fst (respond 200 (update_address path_phone data w))) = 404
      \<and> db (snd (respond 200 (update_address path_phone data w))) = db w)
   \<and> (map_of (db w) (cleaned_phone path_phone) \<noteq> None \<and> \<not> faulty w \<and> \<not> fails_at 1 w \<longrightarrow>
      fst (respond 200 (update_address path_phone data w)) =
        Response 200 (Json (AddressUpdated (cleaned_phone path_phone) (new_address data)))
      \<and> db (snd (respond 200 (update_address path_phone data w))) =
        AList.update (cleaned_phone path_phone) (new_address data, Some 2592000) (db w))
   \<and> (map_of (db w) (cleaned_phone path_phone) \<noteq> None \<and> \<not> faulty w \<and> fails_at 1 w \<longrightarrow>
      status_code (fst (respond 200 (update_address path_phone data w))) = 500
      \<and> db (snd (respond 200 (update_address path_phone data w))) =
        (if lost_at 1 w
         then AList.update (cleaned_phone path_phone) (new_address data, Some 2592000) (db w)
         else db w))"
  by (auto simp: update_address_def exists_eval set_data_eval[OF ttl_pos] respond_def faulty_def
        nat_ttl Let_def dest: lost_fails)

text \<open>
  At the store with one record: an update of the record, an update of another phone, and
  two updates of the record whose write fails, before and after the server has executed it.
\<close>

theorem update_witness:
  "status_code (fst (respond 200 (update_address (asc ''+7 (916) 123-45-67'')
        (AddressUpdate (asc ''Kazan'')) (one_record [])))) = 200
   \<and> db (snd (respond 200 (update_address (asc ''+7 (916) 123-45-67'')
        (AddressUpdate (asc ''Kazan'')) (one_record [])))) =
      [(asc ''+79161234567'', asc ''Kazan'', Some 2592000)]
   \<and> status_code (fst (respond 200 (update_address (asc ''+7 (916) 000-00-00'')
        (AddressUpdate (asc ''Kazan'')) (one_record [])))) = 404
   \<and> status_code (fst (respond 200 (update_address (asc ''+7 (916) 123-45-67'')
        (AddressUpdate (asc ''Kazan'')) (one_record [Answered, Dropped])))) = 500
   \<and> db (snd (respond 200 (update_address (asc ''+7 (916) 123-45-67'')
        (AddressUpdate (asc ''Kazan'')) (one_record [Answered, Dropped])))) =
      [(asc ''+79161234567'', asc ''Moscow'', Some 600)]
   \<and> status_code (fst (respond 200 (update_address (asc ''+7 (916) 123-45-67'')
        (AddressUpdate (asc ''Kazan'')) (one_record [Answered, Lost])))) = 500
   \<and> db (snd (respond 200 (update_address (asc ''+7 (916) 123-45-67'')
        (AddressUpdate (asc ''Kazan'')) (one_record [Answered, Lost])))) =
      [(asc ''+79161234567'', asc ''Kazan'', Some 2592000)]"
  using update_semantics[of "one_record []" "asc ''+7 (916) 123-45-67''" "AddressUpdate (asc ''Kazan'')"]
    update_semantics[of "one_record []" "asc ''+7 (916) 000-00-00''" "AddressUpdate (asc ''Kazan'')"]
    update_semantics[of "one_record [Answered, Dropped]" "asc ''+7 (916) 123-45-67''"
      "AddressUpdate (asc ''Kazan'')"]
    update_semantics[of "one_record [Answered, Lost]" "asc ''+7 (916) 123-45-67''"
      "AddressUpdate (asc ''Kazan'')"]
  by (simp add: one_record_def faulty_def fails_at_def lost_at_def outcome_at_def
        cleaned_phone_eval keeps_ascii)

subsection \<open>C5: delete\<close>

text \<open>
  C5, as stated (a delete request on a phone present in the store is answered 204),
  fails when the deletion fails: the phone is present, the existence check finds it, the
  \<open>DEL\<close> command fails, and the answer is 500.
\<close>

theorem delete_counterexample:
  "map_of (db (one_record [Answered, Dropped])) (cleaned_phone (asc ''+7 (916) 123-45-67'')) =
      Some (asc ''Moscow'', Some 600)
   \<and> status_code (fst (DELETE_phones (asc ''+7 (916) 123-45-67'')
        (one_record [Answered, Dropped]))) = 500"
  by (simp add: DELETE_phones_def delete_record_def one_record_def run cleaned_phone_eval
        keeps_ascii Let_def)

text \<open>
  C5, amended: for every delete request, if the normalized path phone is absent from the
  store, the answer is 404, not 204, and the store is unchanged; if the phone is present
  and neither the existence check nor the deletion fails, the answer is 204 with no body,
  the key is removed, and a subsequent read of the same phone is answered 404; if the
  phone is present and found and the deletion fails, the answer is 500. In the last case
  the store holds what the server made of the attempted deletion: the key is removed if
  the server executed the command before the failure, and kept otherwise.
\<close>

theorem delete_semantics:
  "(map_of (db w) (cleaned_phone path_phone) = None \<longrightarrow>
      status_code (fst (DELETE_phones path_phone w)) = 404
      \<and> db (snd (DELETE_phones path_phone w)) = db w)
   \<and> (map_of (db w) (cleaned_phone path_phone) \<noteq> None \<and> \<not> faulty w \<and> \<not> fails_at 1 w \<longrightarrow>
      fst (DELETE_phones path_phone w) = Response 204 Empty
      \<and> db (snd (DELETE_phones path_phone w)) = AList.delete (cleaned_phone path_phone) (db w)
      \<and> map_of (db (snd (DELETE_phones path_phone w))) (cleaned_phone path_phone) = None
      \<and> status_code (fst (GET_phones path_phone (snd (DELETE_phones path_phone w)))) = 404)
   \<and> (map_of (db w) (cleaned_phone path_phone) \<noteq> None \<and> \<not> faulty w \<and> fails_at 1 w \<longrightarrow>
      status_code (fst (DELETE_phones path_phone w)) = 500
      \<and> db (snd (DELETE_phones path_phone w)) =
        (if lost_at 1 w then AList.delete (cleaned_phone path_phone) (db w) else db w))"
  by (auto simp: DELETE_phones_def GET_phones_def get_address_def delete_record_def exists_eval
        delete_key_eval get_data_eval respond_def faulty_def Let_def delete_notin_dom
        AList.delete_conv dest: lost_fails)

text \<open>
  At the store with one record: a delete of the record followed by a read, a delete of
  another phone, and two deletes of the record whose \<open>DEL\<close> command fails, before and
  after the server has executed it.
\<close>

theorem delete_witness:
  "fst (DELETE_phones (asc ''+7 (916) 123-45-67'') (one_record [])) = Response 204 Empty
   \<and> db (snd (DELETE_phones (asc ''+7 (916) 123-45-67'') (one_record []))) = []
   \<and> status_code (fst (GET_phones (asc ''+7 (916) 123-45-67'')
        (snd (DELETE_phones (asc ''+7 (916) 123-45-67'') (one_record []))))) = 404
   \<and> status_code (fst (DELETE_phones (asc ''+7 (916) 000-00-00'') (one_record []))) = 404
   \<and> status_code (fst (DELETE_phones (asc ''+7 (916) 123-45-67'')
        (one_record [Answered, Dropped]))) = 500
   \<and> db (snd (DELETE_phones (asc ''+7 (916) 123-45-67'') (one_record [Answered, Dropped]))) =
      [(asc ''+79161234567'', asc ''Moscow'', Some 600)]
   \<and> status_code (fst (DELETE_phones (asc ''+7 (916) 123-45-67'')
        (one_record [Answered, Lost]))) = 500
   \<and> db (snd (DELETE_phones (asc ''+7 (916) 123-45-67'') (one_record [Answered, Lost]))) = []"
  using delete_semantics[of "one_record []" "asc ''+7 (916) 123-45-67''"]
    delete_semantics[of "one_record []" "asc ''+7 (916) 000-00-00''"]
    delete_semantics[of "one_record [Answered, Dropped]" "asc ''+7 (916) 123-45-67''"]
    delete_semantics[of "one_record [Answered, Lost]" "asc ''+7 (916) 123-45-67''"]
  by (simp add: one_record_def faulty_def fails_at_def lost_at_def outcome_at_def
        cleaned_phone_eval keeps_ascii)

subsection \<open>C6: listing\<close>

text \<open>
  C6, as stated (over a store with \<open>n\<close> keys \<open>total_records\<close> is \<open>n\<close>), fails when the
  enumeration of the keys fails: the listing of a store with one record then reports
  \<open>total_records = 0\<close>.
\<close>

theorem list_records_counterexample:
  "length (db (one_record [Dropped])) = 1
   \<and> fst (GET_admin_records 5 (one_record [Dropped])) = Response 200 (Json (Records 0 0 []))"
  by (simp add: GET_admin_records_def get_all_records_def except_raise_def one_record_def run)

text \<open>
  C6, amended: for every \<open>GET /admin/records\<close> request whose enumeration of the keys
  succeeds, over a store whose full key list has length \<open>n\<close>, \<open>total_records\<close> is \<open>n\<close>. One
  \<open>GET\<close> is sent for each of the first \<open>limit\<close> keys of the full list if \<open>limit > 0\<close>, for
  each key of the full list if \<open>limit \<le> 0\<close>, in the order of the list, and for no other
  key. Every returned record belongs to a fetched key that has a non-empty value in the
  store, so a fetched key whose value is absent is skipped, and \<open>displayed_records\<close> is
  the number of records returned. When no command fails and no key occurs twice, the
  returned records are the fetched keys with a non-empty value, in their order, each with
  its value.
\<close>

theorem list_records:
  assumes "\<not> faulty w"
  shows "\<exists>recs w'.
      GET_admin_records limit w =
        (Response 200 (Json (Records (length (db w)) (length recs) recs)), w')
    \<and> trace w' = trace w @ KEYS #
        map GET (if 0 < limit then take (nat limit) (map fst (db w)) else map fst (db w))
    \<and> (\<forall>k \<in> fst ` set recs.
          k \<in> set (if 0 < limit then take (nat limit) (map fst (db w)) else map fst (db w))
          \<and> shown w k)
    \<and> (no_fault w \<and> distinct (map fst (db w)) \<longrightarrow>
          recs = map (\<lambda>k. (k, the (stored_value w k)))
                   (filter (shown w)
                      (if 0 < limit then take (nat limit) (map fst (db w))
                       else map fst (db w))))"
proof -
  define ks where "ks = (if 0 < limit then take (nat limit) (map fst (db w)) else map fst (db w))"
  define r where "r = fetch ks [] (snd (keys w))"
  have k: "fst (keys w) = map fst (db w)"
    using assms by (simp add: keys_faulty)
  have cl: "client w" "\<not> fails_at 0 w"
    using assms by (simp_all add: faulty_def)
  have eq: "GET_admin_records limit w =
      (Response 200 (Json (Records (length (db w)) (length (fst r)) (fst r))), snd r)"
    using k by (simp add: GET_admin_records_def get_all_records_eval respond_def Let_def
        r_def ks_def)
  have tr: "trace (snd r) = trace w @ KEYS # map GET ks"
    using cl by (simp add: r_def fetch_trace keys_db) (simp add: keys_eval)
  have sub: "\<forall>k \<in> fst ` set (fst r). k \<in> set ks \<and> shown w k"
    using fetch_keys[of ks "[]" "snd (keys w)"] by (auto simp: r_def)
  have nf: "no_fault w \<and> distinct (map fst (db w)) \<longrightarrow>
          fst r = map (\<lambda>k. (k, the (stored_value w k))) (filter (shown w) ks)"
  proof
    assume a: "no_fault w \<and> distinct (map fst (db w))"
    then have d: "distinct ks" by (simp add: ks_def)
    show "fst r = map (\<lambda>k. (k, the (stored_value w k))) (filter (shown w) ks)"
      using fetch_no_fault[OF no_fault_keys, of w ks "[]"] a d by (simp add: r_def)
  qed
  show ?thesis
    apply (rule exI[of _ "fst r"])
    apply (rule exI[of _ "snd r"])
    using eq tr sub nf
    unfolding ks_def
    apply blast
    done
qed

text \<open>
  The example of the claim: ten stored keys and \<open>limit = 5\<close> give \<open>total_records = 10\<close>
  and \<open>displayed_records = 5\<close>, with the first five records. With \<open>limit = 0\<close> and with
  \<open>limit = -1\<close> all ten are returned.
\<close>

theorem list_records_witness:
  "length (db ten_records) = 10
   \<and> fst (GET_admin_records 5 ten_records) =
       Response 200 (Json (Records 10 5 (map (\<lambda>i. (numbered i, asc ''Moscow'')) [0, 1, 2, 3, 4])))
   \<and> fst (GET_admin_records 0 ten_records) =
       Response 200 (Json (Records 10 10
         (map (\<lambda>i. (numbered i, asc ''Moscow'')) [0, 1, 2, 3, 4, 5, 6, 7, 8, 9])))
   \<and> fst (GET_admin_records (- 1) ten_records) =
       Response 200 (Json (Records 10 10
         (map (\<lambda>i. (numbered i, asc ''Moscow'')) [0, 1, 2, 3, 4, 5, 6, 7, 8, 9])))"
proof -
  have nf: "no_fault ten_records \<and> distinct (map fst (db ten_records))"
    by (simp add: no_fault_def ten_records_def numbered_def)
  have nofl: "\<not> faulty ten_records"
    by (simp add: faulty_def fails_at_def outcome_at_def ten_records_def)
  have ev: "\<And>limit recs w'.
      GET_admin_records limit ten_records =
        (Response 200 (Json (Records (length (db ten_records)) (length recs) recs)), w') \<Longrightarrow>
      no_fault ten_records \<and> distinct (map fst (db ten_records)) \<longrightarrow>
          recs = map (\<lambda>k. (k, the (stored_value ten_records k)))
                   (filter (shown ten_records)
                      (if 0 < limit then take (nat limit) (map fst (db ten_records))
                       else map fst (db ten_records))) \<Longrightarrow>
      fst (GET_admin_records limit ten_records) =
        Response 200 (Json (Records 10
          (length (filter (shown ten_records)
                      (if 0 < limit then take (nat limit) (map fst (db ten_records))
                       else map fst (db ten_records))))
          (map (\<lambda>k. (k, the (stored_value ten_records k)))
                   (filter (shown ten_records)
                      (if 0 < limit then take (nat limit) (map fst (db ten_records))
                       else map fst (db ten_records))))))"
    using nf by (simp add: ten_records_def)
  have a: "fst (GET_admin_records 5 ten_records) =
       Response 200 (Json (Records 10 5 (map (\<lambda>i. (numbered i, asc ''Moscow'')) [0, 1, 2, 3, 4])))"
    using list_records[OF nofl, of 5] ev[of 5]
    by (auto simp: shown_def stored_value_def ten_records_def numbered_def)
  have b: "fst (GET_admin_records 0 ten_records) =
       Response 200 (Json (Records 10 10
         (map (\<lambda>i. (numbered i, asc ''Moscow'')) [0, 1, 2, 3, 4, 5, 6, 7, 8, 9])))"
    using list_records[OF nofl, of 0] ev[of 0]
    by (auto simp: shown_def stored_value_def ten_records_def numbered_def)
  have c: "fst (GET_admin_records (- 1) ten_records) =
       Response 200 (Json (Records 10 10
         (map (\<lambda>i. (numbered i, asc ''Moscow'')) [0, 1, 2, 3, 4, 5, 6, 7, 8, 9])))"
    using list_records[OF nofl, of "- 1"] ev[of "- 1"]
    by (auto simp: shown_def stored_value_def ten_records_def numbered_def)
  show ?thesis using a b c by (simp add: ten_records_def)
qed

subsection \<open>C7: the store client returns sentinels\<close>

text \<open>
  C7: whenever a call of a client method meets a fault (no connection object, or the
  command fails), the \<open>try\<close> block of the method raises and the method returns its
  sentinel instead: none for \<open>get_data\<close>, false for \<open>set_data\<close>, \<open>exists\<close> and
  \<open>delete_key\<close>, the empty list for \<open>keys\<close>. \<open>delete_key\<close> returns false as well when
  the key is not in the store, since the deletion then removes no key.
\<close>

theorem client_sentinels:
  "(faulty w \<longrightarrow>
      (\<exists>e. fst (get_data_try k w) = Inl e) \<and> fst (get_data k w) = None
    \<and> (\<exists>e. fst (set_data_try k v expire w) = Inl e) \<and> fst (set_data k v expire w) = False
    \<and> (\<exists>e. fst (exists_try k w) = Inl e) \<and> fst (exists k w) = False
    \<and> (\<exists>e. fst (delete_key_try k w) = Inl e) \<and> fst (delete_key k w) = False
    \<and> (\<exists>e. fst (keys_try w) = Inl e) \<and> fst (keys w) = [])
   \<and> (map_of (db w) k = None \<longrightarrow> fst (delete_key k w) = False)"
proof -
  have d: "map_of (db w) k = None \<longrightarrow> fst (delete_key k w) = False"
    by (simp add: delete_key_eval)
  have f: "faulty w \<longrightarrow>
      (\<exists>e. fst (get_data_try k w) = Inl e) \<and> fst (get_data k w) = None
    \<and> (\<exists>e. fst (set_data_try k v expire w) = Inl e) \<and> fst (set_data k v expire w) = False
    \<and> (\<exists>e. fst (exists_try k w) = Inl e) \<and> fst (exists k w) = False
    \<and> (\<exists>e. fst (delete_key_try k w) = Inl e) \<and> fst (delete_key k w) = False
    \<and> (\<exists>e. fst (keys_try w) = Inl e) \<and> fst (keys w) = []"
    by (cases "outcome_at 0 w")
       (auto simp: faulty_def fails_at_def set_data_def set_data_try_def get_data_def
          get_data_try_def delete_key_def delete_key_try_def exists_def exists_try_def keys_def
          keys_try_def guarded_def except_return_def redis_get_def redis_setex_def redis_set_def
          redis_delete_def redis_exists_def redis_keys_def send_eval Let_def
          split: option.splits)
  show ?thesis using d f by blast
qed

text \<open>
  At the store with one record whose next command fails, before or after the server has
  executed it, and for the deletion of an absent key without fault.
\<close>

theorem client_sentinels_witness:
  "faulty (one_record [Dropped])
   \<and> fst (get_data (asc ''+79161234567'') (one_record [Dropped])) = None
   \<and> fst (set_data (asc ''+79161234567'') (asc ''Kazan'') (Some 60) (one_record [Dropped])) = False
   \<and> fst (exists (asc ''+79161234567'') (one_record [Dropped])) = False
   \<and> fst (delete_key (asc ''+79161234567'') (one_record [Dropped])) = False
   \<and> fst (keys (one_record [Dropped])) = []
   \<and> fst (set_data (asc ''+79161234567'') (asc ''Kazan'') (Some 60) (one_record [Lost])) = False
   \<and> fst (delete_key (asc ''+79161234567'') (one_record [Lost])) = False
   \<and> fst (delete_key (asc ''+70000000000'') (one_record [])) = False"
  using client_sentinels[of "one_record [Dropped]" "asc ''+79161234567''" "asc ''Kazan''" "Some 60"]
    client_sentinels[of "one_record [Lost]" "asc ''+79161234567''" "asc ''Kazan''" "Some 60"]
    client_sentinels[of "one_record []" "asc ''+70000000000''" "asc ''Kazan''" "Some 60"]
  by (simp add: faulty_def fails_at_def outcome_at_def one_record_def)

subsection \<open>C8: normalization is idempotent\<close>

text \<open>
  C8: normalizing a normalized string returns it unchanged; \<open>8 (916) 123-45-67\<close>
  normalizes to \<open>89161234567\<close> and \<open>+7 916 123 45 67\<close> to \<open>+79161234567\<close>.
\<close>

theorem normalization_idempotent:
  "cleaned_phone (cleaned_phone s) = cleaned_phone s
   \<and> cleaned_phone (asc ''8 (916) 123-45-67'') = asc ''89161234567''
   \<and> cleaned_phone (asc ''+7 916 123 45 67'') = asc ''+79161234567''"
  by (simp add: cleaned_phone_idem cleaned_phone_eval keeps_ascii)

subsection \<open>C9: validation boundaries\<close>

text \<open>
  C9: an address shorter than 5 or longer than 500 characters, of length 4 in
  particular, is rejected with 422 by create and by update, and so is a create payload
  whose phone normalizes to fewer than 10 characters; the store is untouched. A response
  has status 422 exactly when the validation of the body has failed: the handlers answer
  with other status codes (404, 409, 500 among them).
\<close>

theorem validation_boundaries:
  "(length raw_address < 5 \<or> 500 < length raw_address \<longrightarrow>
      (\<exists>errs. POST_phones raw_phone raw_address w = (Response 422 (ValidationErrors errs), w))
    \<and> (\<exists>errs. PUT_phones path_phone raw_address w = (Response 422 (ValidationErrors errs), w)))
   \<and> (length (cleaned_phone raw_phone) < 10 \<longrightarrow>
      (\<exists>errs. POST_phones raw_phone raw_address w = (Response 422 (ValidationErrors errs), w)))
   \<and> (status_code (fst (POST_phones raw_phone raw_address w)) = 422 \<longleftrightarrow>
        (\<exists>errs. parse_PhoneAddressCreate raw_phone raw_address = Inl errs))
   \<and> (status_code (fst (PUT_phones path_phone raw_address w)) = 422 \<longleftrightarrow>
        (\<exists>errs. parse_AddressUpdate raw_address = Inl errs))"
proof -
  have post: "\<And>errs. parse_PhoneAddressCreate raw_phone raw_address = Inl errs \<Longrightarrow>
      POST_phones raw_phone raw_address w = (Response 422 (ValidationErrors errs), w)"
    by (simp add: POST_phones_def)
  have put: "\<And>errs. parse_AddressUpdate raw_address = Inl errs \<Longrightarrow>
      PUT_phones path_phone raw_address w = (Response 422 (ValidationErrors errs), w)"
    by (simp add: PUT_phones_def)
  have post': "\<And>d. parse_PhoneAddressCreate raw_phone raw_address = Inr d \<Longrightarrow>
      status_code (fst (POST_phones raw_phone raw_address w)) \<noteq> 422"
    by (simp add: POST_phones_def create_status)
  have put': "\<And>d. parse_AddressUpdate raw_address = Inr d \<Longrightarrow>
      status_code (fst (PUT_phones path_phone raw_address w)) \<noteq> 422"
    by (simp add: PUT_phones_def update_status)
  have c1: "length raw_address < 5 \<or> 500 < length raw_address \<longrightarrow>
      (\<exists>errs. POST_phones raw_phone raw_address w = (Response 422 (ValidationErrors errs), w))
    \<and> (\<exists>errs. PUT_phones path_phone raw_address w = (Response 422 (ValidationErrors errs), w))"
    using post put parse_create_iff[of raw_phone raw_address] parse_update_iff[of raw_address]
    by blast
  have c2: "length (cleaned_phone raw_phone) < 10 \<longrightarrow>
      (\<exists>errs. POST_phones raw_phone raw_address w = (Response 422 (ValidationErrors errs), w))"
    using post parse_create_iff[of raw_phone raw_address] by blast
  have c3: "status_code (fst (POST_phones raw_phone raw_address w)) = 422 \<longleftrightarrow>
        (\<exists>errs. parse_PhoneAddressCreate raw_phone raw_address = Inl errs)"
    using post post' by (cases "parse_PhoneAddressCreate raw_phone raw_address") auto
  have c4: "status_code (fst (PUT_phones path_phone raw_address w)) = 422 \<longleftrightarrow>
        (\<exists>errs. parse_AddressUpdate raw_address = Inl errs)"
    using put put' by (cases "parse_AddressUpdate raw_address") auto
  show ?thesis using c1 c2 c3 c4 by blast
qed

text \<open>
  At the address \<open>Omsk\<close>, of length 4, and at the phone \<open>916-12-34\<close>, of 7 digits.
\<close>

theorem validation_boundaries_witness:
  "status_code (fst (POST_phones (asc ''+7 916 123 45 67'') (asc ''Omsk'') (one_record []))) = 422
   \<and> status_code (fst (PUT_phones (asc ''+7 916 123 45 67'') (asc ''Omsk'') (one_record []))) = 422
   \<and> status_code (fst (POST_phones (asc ''916-12-34'') (asc ''Kazan'') (one_record []))) = 422"
proof -
  have a: "length (asc ''Omsk'') < 5" by simp
  have p: "length (cleaned_phone (asc ''916-12-34'')) < 10"
    by (simp add: cleaned_phone_eval keeps_ascii)
  show ?thesis
    using a p
      validation_boundaries[of "asc ''Omsk''" "asc ''+7 916 123 45 67''" "one_record []"
        "asc ''+7 916 123 45 67''"]
      validation_boundaries[of "asc ''Kazan''" "asc ''916-12-34''" "one_record []" "asc ''1''"]
    by auto
qed

subsection \<open>C10: upper bound on the normalized phone\<close>

text \<open>
  C10: a create payload whose phone normalizes to more than 20 characters is rejected
  with 422 and the error that the phone is too long; the handler is not called and the
  world, with its trace of commands, is returned as it was.
\<close>

theorem long_phone_rejected:
  "20 < length (cleaned_phone raw_phone) \<Longrightarrow>
     \<exists>rest. POST_phones raw_phone raw_address w =
        (Response 422 (ValidationErrors ((''phone'', string_too_long 20) # rest)), w)"
  by (auto simp: POST_phones_def parse_PhoneAddressCreate_def validate_phone_def Field_def Let_def
        errors_of_def split: sum.splits)

text \<open>
  At a phone of 23 digits and signs.
\<close>

theorem long_phone_rejected_witness:
  "\<exists>rest. POST_phones (asc ''+7 916 123 45 67 0000 0000 00'') (asc ''Kazan'') (one_record []) =
      (Response 422 (ValidationErrors ((''phone'', string_too_long 20) # rest)), one_record [])"
  using long_phone_rejected[of "asc ''+7 916 123 45 67 0000 0000 00''" "asc ''Kazan''" "one_record []"]
  by (simp add: cleaned_phone_eval keeps_ascii)

end
